theory Spec2Isabelle
  imports Main "HOL-Library.Char_ord" "HOL-Library.List_Lexorder"
begin

section \<open>Electronics inventory management: the request, assignment and return handlers\<close>

text \<open>
  The development embeds the six state-changing views of
  \<^verbatim>\<open>app/blueprints/admin/routes.py\<close> and \<^verbatim>\<open>app/blueprints/staff/routes.py\<close>:
  \<^verbatim>\<open>submit_request\<close>, \<^verbatim>\<open>approve_request\<close>, \<^verbatim>\<open>reject_request\<close>,
  \<^verbatim>\<open>manual_assignment\<close>, \<^verbatim>\<open>request_return\<close> and \<^verbatim>\<open>complete_return\<close>.
  Each view reads and writes the relational store through the ORM session and answers
  with a flashed message and a redirect, or aborts with 404. The store is passed
  explicitly: a view takes the store and returns its response with the store after
  \<^verbatim>\<open>db.session.commit()\<close>. A view that returns before the commit has written nothing,
  so it returns the store it was given. Every view is modelled as one sequential
  transaction; logging has no effect on the store and is left out.
\<close>

subsection \<open>Rows and tables\<close>

text \<open>
  The model classes live in \<^verbatim>\<open>app/models.py\<close>, which is not among the sources. The
  records below hold the columns that the six views construct, read or write. Primary
  keys are natural numbers (the routes only match non-negative integers), quantities are
  Python integers, statuses are the strings the views compare against, and a time stamp
  (\<^verbatim>\<open>datetime.utcnow()\<close>) is a natural number handed to the view.
\<close>

record inventory_item =
  i_id :: nat
  i_name :: string
  i_quantity_available :: int

record staff_user =
  u_id :: nat
  u_full_name :: string

record item_request =
  r_id :: nat
  r_staff_id :: nat
  r_item_name :: string
  r_justification :: string
  r_status :: string

record item_assignment =
  a_id :: nat
  a_item_id :: nat
  a_staff_id :: nat
  a_allocation_date :: nat
  a_return_date :: "nat option"
  a_status :: string

text \<open>
  A table is the list of its rows in insertion order. \<^verbatim>\<open>Model.query.get(k)\<close> is the
  first row whose primary key is \<open>k\<close>; an attribute assignment followed by a commit is
  the SQL update of the rows with the primary key of the loaded object.
\<close>

record db =
  items :: "inventory_item list"
  staff :: "staff_user list"
  requests :: "item_request list"
  assignments :: "item_assignment list"

definition get_item :: "db \<Rightarrow> nat \<Rightarrow> inventory_item option" where
  "get_item s k = find (\<lambda>i. i_id i = k) (items s)"

definition get_staff :: "db \<Rightarrow> nat \<Rightarrow> staff_user option" where
  "get_staff s k = find (\<lambda>u. u_id u = k) (staff s)"

definition get_request :: "db \<Rightarrow> nat \<Rightarrow> item_request option" where
  "get_request s k = find (\<lambda>r. r_id r = k) (requests s)"

definition get_assignment :: "db \<Rightarrow> nat \<Rightarrow> item_assignment option" where
  "get_assignment s k = find (\<lambda>a. a_id a = k) (assignments s)"

definition update_item :: "nat \<Rightarrow> (inventory_item \<Rightarrow> inventory_item) \<Rightarrow> db \<Rightarrow> db" where
  "update_item k f s = s\<lparr>items := map (\<lambda>i. if i_id i = k then f i else i) (items s)\<rparr>"

definition update_request :: "nat \<Rightarrow> (item_request \<Rightarrow> item_request) \<Rightarrow> db \<Rightarrow> db" where
  "update_request k f s = s\<lparr>requests := map (\<lambda>r. if r_id r = k then f r else r) (requests s)\<rparr>"

definition update_assignment :: "nat \<Rightarrow> (item_assignment \<Rightarrow> item_assignment) \<Rightarrow> db \<Rightarrow> db" where
  "update_assignment k f s =
     s\<lparr>assignments := map (\<lambda>a. if a_id a = k then f a else a) (assignments s)\<rparr>"

text \<open>
  An inserted row gets a fresh primary key from the store: one more than the largest
  key of the table. A row object built by a view has no key before it is inserted; the
  views below write 0 there, and the insertion overwrites it.
\<close>

fun max_id :: "nat list \<Rightarrow> nat" where
  "max_id [] = 0"
| "max_id (k # ks) = max k (max_id ks)"

definition new_id :: "nat list \<Rightarrow> nat" where
  "new_id ks = Suc (max_id ks)"

definition add_request :: "item_request \<Rightarrow> db \<Rightarrow> db" where
  "add_request r s =
     s\<lparr>requests := requests s @ [r\<lparr>r_id := new_id (map r_id (requests s))\<rparr>]\<rparr>"

definition add_assignment :: "item_assignment \<Rightarrow> db \<Rightarrow> db" where
  "add_assignment a s =
     s\<lparr>assignments := assignments s @ [a\<lparr>a_id := new_id (map a_id (assignments s))\<rparr>]\<rparr>"

subsection \<open>Requests, responses and the session user\<close>

text \<open>
  A view ends in \<^verbatim>\<open>flash(message, category)\<close> and a redirect to an endpoint, or in
  \<^verbatim>\<open>abort(404)\<close> raised by \<^verbatim>\<open>get_or_404\<close> and \<^verbatim>\<open>first_or_404\<close>.
  \<open>Unauthorized\<close> is the answer of flask-login's \<^verbatim>\<open>login_required\<close>.
\<close>

datatype response =
    Unauthorized
  | Abort nat
  | Redirect string string string

text \<open>\<open>Redirect endpoint message category\<close>: the flashed message, its category, and the target.\<close>

record user =
  is_authenticated :: bool
  user_role :: string
  user_id :: nat

text \<open>
  The form classes live in \<^verbatim>\<open>forms.py\<close>, which is not among the sources. A submitted
  form is its parsed field data together with a flag for the result of its validators
  (what \<^verbatim>\<open>form.validate_on_submit()\<close> checks). The identifier fields hold the submitted data as read by the views
  (\<^verbatim>\<open>int(form.request_id.data)\<close>, \<^verbatim>\<open>form.item_id.data\<close>). The admin views give
  the item and staff fields of a form their choices before they validate it
  (\<^verbatim>\<open>form.item_id.choices = _available_item_choices()\<close>), so these are select
  fields, and a select field validates only when the submitted value is one of its
  choices. That check is modelled below from the choices the view computes; the flag
  of a form record (\<^verbatim>\<open>af_valid\<close>, \<^verbatim>\<open>mf_valid\<close>, ...) stands for all other
  validators of the form class.
\<close>

record request_item_form =
  sf_valid :: bool
  sf_item_name :: string
  sf_justification :: string

record approve_form =
  af_valid :: bool
  af_request_id :: nat
  af_item_id :: nat

record reject_form =
  rf_valid :: bool
  rf_request_id :: nat

record manual_form =
  mf_valid :: bool
  mf_item_id :: nat
  mf_staff_id :: nat

record return_form =
  cf_valid :: bool
  cf_assignment_id :: nat

text \<open>
  The decorators of the views: \<^verbatim>\<open>login_required\<close> runs first, then
  \<^verbatim>\<open>admin_only\<close> or \<^verbatim>\<open>staff_only\<close>, then the view. Each takes the session user,
  the store, and what the decorated view answers.
\<close>

definition login_required :: "user \<Rightarrow> db \<Rightarrow> response \<times> db \<Rightarrow> response \<times> db" where
  "login_required u s view = (if \<not> is_authenticated u then (Unauthorized, s) else view)"

definition admin_only :: "user \<Rightarrow> db \<Rightarrow> response \<times> db \<Rightarrow> response \<times> db" where
  "admin_only u s view =
     (if \<not> is_authenticated u \<or> user_role u \<noteq> ''admin''
      then (Redirect ''admin.login'' ''Please log in as admin to continue.'' ''warning'', s)
      else view)"

definition staff_only :: "user \<Rightarrow> db \<Rightarrow> response \<times> db \<Rightarrow> response \<times> db" where
  "staff_only u s view =
     (if \<not> is_authenticated u \<or> user_role u \<noteq> ''staff''
      then (Redirect ''staff.login'' ''Please log in as staff to continue.'' ''warning'', s)
      else view)"

text \<open>
  Python's \<^verbatim>\<open>str.strip()\<close>. A string is the list of the bytes of its UTF-8
  encoding. Python strips the characters for which \<^verbatim>\<open>str.isspace\<close> holds: the
  ASCII ones of \<open>is_space\<close>, U+0085 and U+00A0 (two bytes each), and U+1680,
  U+2000 to U+200A, U+2028, U+2029, U+202F, U+205F and U+3000 (three bytes each).
\<close>

definition is_space :: "char \<Rightarrow> bool" where
  "is_space c = (c \<in> set [CHR '' '', CHR 0x09, CHR 0x0A, CHR 0x0B, CHR 0x0C, CHR 0x0D,
                            CHR 0x1C, CHR 0x1D, CHR 0x1E, CHR 0x1F])"

definition is_space2 :: "char \<Rightarrow> char \<Rightarrow> bool" where
  "is_space2 a b = (a = CHR 0xC2 \<and> (b = CHR 0x85 \<or> b = CHR 0xA0))"

definition is_space3 :: "char \<Rightarrow> char \<Rightarrow> char \<Rightarrow> bool" where
  "is_space3 a b c =
     ((a = CHR 0xE1 \<and> b = CHR 0x9A \<and> c = CHR 0x80) \<or>
      (a = CHR 0xE2 \<and> b = CHR 0x80 \<and>
         c \<in> set [CHR 0x80, CHR 0x81, CHR 0x82, CHR 0x83, CHR 0x84, CHR 0x85, CHR 0x86,
                    CHR 0x87, CHR 0x88, CHR 0x89, CHR 0x8A, CHR 0xA8, CHR 0xA9, CHR 0xAF]) \<or>
      (a = CHR 0xE2 \<and> b = CHR 0x81 \<and> c = CHR 0x9F) \<or>
      (a = CHR 0xE3 \<and> b = CHR 0x80 \<and> c = CHR 0x80))"

text \<open>
  \<open>drop_spaces backwards t\<close> removes the whitespace characters at the front of \<open>t\<close>;
  with \<open>backwards\<close> the bytes of \<open>t\<close>, and so of each character, come last byte first.
\<close>

fun drop_spaces :: "bool \<Rightarrow> string \<Rightarrow> string" where
  "drop_spaces backwards (a # b # c # t) =
     (if is_space a then drop_spaces backwards (b # c # t)
      else if (if backwards then is_space2 b a else is_space2 a b)
        then drop_spaces backwards (c # t)
      else if (if backwards then is_space3 c b a else is_space3 a b c)
        then drop_spaces backwards t
      else a # b # c # t)"
| "drop_spaces backwards [a, b] =
     (if is_space a then drop_spaces backwards [b]
      else if (if backwards then is_space2 b a else is_space2 a b) then []
      else [a, b])"
| "drop_spaces backwards [a] = (if is_space a then [] else [a])"
| "drop_spaces backwards [] = []"

definition strip :: "string \<Rightarrow> string" where
  "strip t = rev (drop_spaces True (rev (drop_spaces False t)))"

subsection \<open>The choices of the select fields\<close>

text \<open>Python's \<^verbatim>\<open>str\<close> of an integer, as it is formatted into a label.\<close>

function show_nat :: "nat \<Rightarrow> string" where
  "show_nat n =
     (if n < 10 then [char_of (48 + n)] else show_nat (n div 10) @ [char_of (48 + n mod 10)])"
  by pat_completeness auto
termination
  by (relation "measure id") auto

definition show_int :: "int \<Rightarrow> string" where
  "show_int i = (if i < 0 then CHR ''-'' # show_nat (nat (- i)) else show_nat (nat i))"

text \<open>
  \<^verbatim>\<open>_available_item_choices\<close>: the items with positive quantity, ordered by name (here
  in byte order, and stably; the collation is the store's), each as the pair of its key
  and its label. The two characters between name and quantity are not ASCII and stand
  here in their UTF-8 encoding.
\<close>

definition available_item_choices :: "db \<Rightarrow> (nat \<times> string) list" where
  "available_item_choices s =
     map (\<lambda>item. (i_id item,
                   i_name item @ '' '' @ [CHR 0xC3, CHR 0x82, CHR 0xC2, CHR 0xB7] @ '' '' @
                   show_int (i_quantity_available item) @ '' available''))
       (sort_key i_name (filter (\<lambda>item. 0 < i_quantity_available item) (items s)))"

definition staff_choices :: "db \<Rightarrow> (nat \<times> string) list" where
  "staff_choices s = map (\<lambda>member. (u_id member, u_full_name member)) (sort_key u_full_name (staff s))"

definition valid_choice :: "nat \<Rightarrow> (nat \<times> string) list \<Rightarrow> bool" where
  "valid_choice v choices = (v \<in> fst ` set choices)"

definition validate_approve_form :: "approve_form \<Rightarrow> (nat \<times> string) list \<Rightarrow> bool" where
  "validate_approve_form form item_choices =
     (af_valid form \<and> valid_choice (af_item_id form) item_choices)"

definition validate_manual_form ::
  "manual_form \<Rightarrow> (nat \<times> string) list \<Rightarrow> (nat \<times> string) list \<Rightarrow> bool" where
  "validate_manual_form form item_choices member_choices =
     (mf_valid form \<and> valid_choice (mf_item_id form) item_choices
        \<and> valid_choice (mf_staff_id form) member_choices)"

subsection \<open>The staff views\<close>

text \<open>
  Modelled from the spec: the column default of \<^verbatim>\<open>ItemRequest.status\<close> is declared in
  the missing \<^verbatim>\<open>models.py\<close>; the specification says a request is created in
  \<^verbatim>\<open>pending\<close>.
\<close>

definition default_request_status :: string where
  "default_request_status = ''pending''"

definition submit_request_view :: "user \<Rightarrow> request_item_form \<Rightarrow> db \<Rightarrow> response \<times> db" where
  "submit_request_view u form s =
     (if sf_valid form then
        (Redirect ''staff.dashboard'' ''Request submitted. Admin will review shortly.'' ''success'',
         add_request \<lparr>r_id = 0, r_staff_id = user_id u,
                      r_item_name = strip (sf_item_name form),
                      r_justification = strip (sf_justification form),
                      r_status = default_request_status\<rparr> s)
      else
        (Redirect ''staff.dashboard'' ''Please fix the errors and try again.'' ''danger'', s))"

definition submit_request :: "user \<Rightarrow> request_item_form \<Rightarrow> db \<Rightarrow> response \<times> db" where
  "submit_request u form s = login_required u s (staff_only u s (submit_request_view u form s))"

definition request_return_view :: "user \<Rightarrow> nat \<Rightarrow> db \<Rightarrow> response \<times> db" where
  "request_return_view u assignment_id s =
     (case find (\<lambda>a. a_id a = assignment_id \<and> a_staff_id a = user_id u) (assignments s) of
        None \<Rightarrow> (Abort 404, s)
      | Some assignment \<Rightarrow>
          if a_status assignment \<notin> {''assigned'', ''return_requested''} then
            (Redirect ''staff.dashboard'' ''This item cannot be returned right now.'' ''warning'', s)
          else if a_status assignment = ''return_requested'' then
            (Redirect ''staff.dashboard'' ''Return already requested. Hang tight!'' ''info'', s)
          else
            (Redirect ''staff.dashboard'' ''Return request sent.'' ''info'',
             update_assignment (a_id assignment) (\<lambda>a. a\<lparr>a_status := ''return_requested''\<rparr>) s))"

definition request_return :: "user \<Rightarrow> nat \<Rightarrow> db \<Rightarrow> response \<times> db" where
  "request_return u assignment_id s =
     login_required u s (staff_only u s (request_return_view u assignment_id s))"

subsection \<open>The admin views\<close>

definition approve_request_view :: "nat \<Rightarrow> nat \<Rightarrow> approve_form \<Rightarrow> db \<Rightarrow> response \<times> db" where
  "approve_request_view now request_id form s =
     (if \<not> validate_approve_form form (available_item_choices s)
         \<or> af_request_id form \<noteq> request_id then
        (Redirect ''admin.requests_queue''
           ''Could not process request approval. Please recheck the form.'' ''danger'', s)
      else case get_request s request_id of
        None \<Rightarrow> (Abort 404, s)
      | Some request_record \<Rightarrow>
          if r_status request_record \<noteq> ''pending'' then
            (Redirect ''admin.requests_queue'' ''This request has already been processed.'' ''info'', s)
          else
            (case get_item s (af_item_id form) of
               None \<Rightarrow> (Abort 404, s)
             | Some item \<Rightarrow>
                 if i_quantity_available item \<le> 0 then
                   (Redirect ''admin.requests_queue'' ''Item is no longer available.'' ''warning'', s)
                 else
                   (Redirect ''admin.requests_queue'' ''Request approved and item assigned.'' ''success'',
                    add_assignment
                      \<lparr>a_id = 0, a_item_id = i_id item, a_staff_id = r_staff_id request_record,
                       a_allocation_date = now, a_return_date = None, a_status = ''assigned''\<rparr>
                      (update_request (r_id request_record) (\<lambda>r. r\<lparr>r_status := ''approved''\<rparr>)
                        (update_item (i_id item)
                           (\<lambda>i. i\<lparr>i_quantity_available := i_quantity_available item - 1\<rparr>) s)))))"

definition approve_request :: "user \<Rightarrow> nat \<Rightarrow> nat \<Rightarrow> approve_form \<Rightarrow> db \<Rightarrow> response \<times> db" where
  "approve_request u now request_id form s =
     login_required u s (admin_only u s (approve_request_view now request_id form s))"

definition reject_request_view :: "nat \<Rightarrow> reject_form \<Rightarrow> db \<Rightarrow> response \<times> db" where
  "reject_request_view request_id form s =
     (if \<not> rf_valid form \<or> rf_request_id form \<noteq> request_id then
        (Redirect ''admin.requests_queue'' ''Could not reject the request. Please retry.'' ''danger'', s)
      else case get_request s request_id of
        None \<Rightarrow> (Abort 404, s)
      | Some request_record \<Rightarrow>
          if r_status request_record \<noteq> ''pending'' then
            (Redirect ''admin.requests_queue'' ''This request has already been processed.'' ''info'', s)
          else
            (Redirect ''admin.requests_queue'' ''Request rejected.'' ''info'',
             update_request (r_id request_record) (\<lambda>r. r\<lparr>r_status := ''rejected''\<rparr>) s))"

definition reject_request :: "user \<Rightarrow> nat \<Rightarrow> reject_form \<Rightarrow> db \<Rightarrow> response \<times> db" where
  "reject_request u request_id form s =
     login_required u s (admin_only u s (reject_request_view request_id form s))"

definition manual_assignment_view :: "nat \<Rightarrow> manual_form \<Rightarrow> db \<Rightarrow> response \<times> db" where
  "manual_assignment_view now form s =
     (if \<not> validate_manual_form form (available_item_choices s) (staff_choices s) then
        (Redirect ''admin.requests_queue''
           ''Could not create manual assignment. Check the selections.'' ''danger'', s)
      else case get_item s (mf_item_id form) of
        None \<Rightarrow> (Abort 404, s)
      | Some item \<Rightarrow>
          (case get_staff s (mf_staff_id form) of
             None \<Rightarrow> (Abort 404, s)
           | Some staff_member \<Rightarrow>
               if i_quantity_available item \<le> 0 then
                 (Redirect ''admin.requests_queue'' ''Item is no longer available.'' ''warning'', s)
               else
                 (Redirect ''admin.requests_queue''
                    (i_name item @ '' assigned to '' @ u_full_name staff_member @ ''.'') ''success'',
                  add_assignment
                    \<lparr>a_id = 0, a_item_id = i_id item, a_staff_id = u_id staff_member,
                     a_allocation_date = now, a_return_date = None, a_status = ''assigned''\<rparr>
                    (update_item (i_id item)
                       (\<lambda>i. i\<lparr>i_quantity_available := i_quantity_available item - 1\<rparr>) s))))"

definition manual_assignment :: "user \<Rightarrow> nat \<Rightarrow> manual_form \<Rightarrow> db \<Rightarrow> response \<times> db" where
  "manual_assignment u now form s =
     login_required u s (admin_only u s (manual_assignment_view now form s))"

text \<open>
  \<^verbatim>\<open>assignment.item\<close> is the ORM relationship over \<^verbatim>\<open>item_id\<close>: the item row with
  that key, or \<^verbatim>\<open>None\<close> when there is none.
\<close>

definition complete_return_view :: "nat \<Rightarrow> nat \<Rightarrow> return_form \<Rightarrow> db \<Rightarrow> response \<times> db" where
  "complete_return_view now assignment_id form s =
     (if \<not> cf_valid form \<or> cf_assignment_id form \<noteq> assignment_id then
        (Redirect ''admin.requests_queue'' ''Could not process return. Please retry.'' ''danger'', s)
      else case get_assignment s assignment_id of
        None \<Rightarrow> (Abort 404, s)
      | Some assignment \<Rightarrow>
          if a_status assignment \<noteq> ''return_requested'' then
            (Redirect ''admin.requests_queue'' ''This assignment is not pending return.'' ''info'', s)
          else
            (Redirect ''admin.requests_queue'' ''Return completed and inventory updated.'' ''success'',
             (case get_item s (a_item_id assignment) of
                Some item \<Rightarrow>
                  update_item (i_id item)
                    (\<lambda>i. i\<lparr>i_quantity_available := i_quantity_available item + 1\<rparr>)
              | None \<Rightarrow> id)
               (update_assignment (a_id assignment)
                  (\<lambda>a. a\<lparr>a_status := ''returned'', a_return_date := Some now\<rparr>) s)))"

definition complete_return :: "user \<Rightarrow> nat \<Rightarrow> nat \<Rightarrow> return_form \<Rightarrow> db \<Rightarrow> response \<times> db" where
  "complete_return u now assignment_id form s =
     login_required u s (admin_only u s (complete_return_view now assignment_id form s))"

subsection \<open>Sequences of operations\<close>

datatype operation =
    SubmitRequest user request_item_form
  | ApproveRequest user nat nat approve_form
  | RejectRequest user nat reject_form
  | ManualAssign user nat manual_form
  | RequestReturn user nat
  | CompleteReturn user nat nat return_form

fun perform :: "operation \<Rightarrow> db \<Rightarrow> response \<times> db" where
  "perform (SubmitRequest u form) s = submit_request u form s"
| "perform (ApproveRequest u now request_id form) s = approve_request u now request_id form s"
| "perform (RejectRequest u request_id form) s = reject_request u request_id form s"
| "perform (ManualAssign u now form) s = manual_assignment u now form s"
| "perform (RequestReturn u assignment_id) s = request_return u assignment_id s"
| "perform (CompleteReturn u now assignment_id form) s = complete_return u now assignment_id form s"

fun run :: "operation list \<Rightarrow> db \<Rightarrow> db" where
  "run [] s = s"
| "run (oper # opers) s = run opers (snd (perform oper s))"

text \<open>The assignments of an item that hold a unit of it.\<close>

definition active :: "item_assignment \<Rightarrow> bool" where
  "active a = (a_status a = ''assigned'' \<or> a_status a = ''return_requested'')"

definition active_count :: "db \<Rightarrow> nat \<Rightarrow> nat" where
  "active_count s k = length (filter (\<lambda>a. a_item_id a = k \<and> active a) (assignments s))"

text \<open>
  The conservation law for the item with key \<open>k\<close> and initial quantity \<open>q0\<close>, together
  with the uniqueness of the primary keys of the assignment table.
\<close>

definition conserved :: "int \<Rightarrow> nat \<Rightarrow> db \<Rightarrow> bool" where
  "conserved q0 k s =
     (distinct (map a_id (assignments s)) \<and>
      (\<exists>it. get_item s k = Some it \<and> q0 = i_quantity_available it + int (active_count s k)))"

subsection \<open>Example stores and sessions\<close>

definition admin_user :: user where
  "admin_user = \<lparr>is_authenticated = True, user_role = ''admin'', user_id = 1\<rparr>"

definition staff_member :: user where
  "staff_member = \<lparr>is_authenticated = True, user_role = ''staff'', user_id = 7\<rparr>"

definition oscilloscope :: inventory_item where
  "oscilloscope = \<lparr>i_id = 1, i_name = ''Oscilloscope'', i_quantity_available = 2\<rparr>"

definition scenario_db :: db where
  "scenario_db =
     \<lparr>items = [oscilloscope],
      staff = [\<lparr>u_id = 7, u_full_name = ''Asha Rao''\<rparr>],
      requests = [], assignments = []\<rparr>"

definition scenario_submit :: operation where
  "scenario_submit =
     SubmitRequest staff_member
       \<lparr>sf_valid = True, sf_item_name = '' scope '', sf_justification = ''lab work''\<rparr>"

definition scenario_approve_form :: "nat \<Rightarrow> approve_form" where
  "scenario_approve_form n = \<lparr>af_valid = True, af_request_id = n, af_item_id = 1\<rparr>"

definition scenario_approve :: "nat \<Rightarrow> operation" where
  "scenario_approve n = ApproveRequest admin_user 100 n (scenario_approve_form n)"

text \<open>Three requests are submitted and the first two are approved against the oscilloscope.\<close>

definition scenario_ops :: "operation list" where
  "scenario_ops = [scenario_submit, scenario_submit, scenario_submit,
                   scenario_approve 1, scenario_approve 2]"

text \<open>One request is approved, one unit is assigned by hand, and the first unit comes back.\<close>

definition lifecycle_ops :: "operation list" where
  "lifecycle_ops =
     [scenario_submit, scenario_approve 1,
      ManualAssign admin_user 101 \<lparr>mf_valid = True, mf_item_id = 1, mf_staff_id = 7\<rparr>,
      RequestReturn staff_member 1,
      CompleteReturn admin_user 102 1 \<lparr>cf_valid = True, cf_assignment_id = 1\<rparr>]"

text \<open>The spec's exhaustion scenario: a third approval follows against the same item.\<close>

definition exhaustion_ops :: "operation list" where
  "exhaustion_ops = scenario_ops @ [scenario_approve 3]"


definition scope_request :: "nat \<Rightarrow> string \<Rightarrow> item_request" where
  "scope_request n st =
     \<lparr>r_id = n, r_staff_id = 7, r_item_name = ''scope'', r_justification = ''lab work'',
      r_status = st\<rparr>"

text \<open>The store after the three submissions, and the store after the two approvals.\<close>

definition requested_db :: db where
  "requested_db =
     scenario_db\<lparr>requests := [scope_request 1 ''pending'', scope_request 2 ''pending'',
                              scope_request 3 ''pending'']\<rparr>"

definition loan :: "nat \<Rightarrow> nat \<Rightarrow> string \<Rightarrow> item_assignment" where
  "loan n item st =
     \<lparr>a_id = n, a_item_id = item, a_staff_id = 7, a_allocation_date = 100,
      a_return_date = None, a_status = st\<rparr>"

definition processed_db :: db where
  "processed_db =
     \<lparr>items = [\<lparr>i_id = 1, i_name = ''Oscilloscope'', i_quantity_available = 0\<rparr>],
      staff = [\<lparr>u_id = 7, u_full_name = ''Asha Rao''\<rparr>],
      requests = [scope_request 1 ''approved'', scope_request 2 ''approved'',
                  scope_request 3 ''pending''],
      assignments = [loan 1 1 ''assigned'', loan 2 1 ''assigned'']\<rparr>"

text \<open>The store after one submission and its approval: the item is still in stock.\<close>

definition approved_db :: db where
  "approved_db =
     \<lparr>items = [\<lparr>i_id = 1, i_name = ''Oscilloscope'', i_quantity_available = 1\<rparr>],
      staff = [\<lparr>u_id = 7, u_full_name = ''Asha Rao''\<rparr>],
      requests = [scope_request 1 ''approved''],
      assignments = [loan 1 1 ''assigned'']\<rparr>"

text \<open>
  A store with returns under way: loan 1 is of the oscilloscope, loan 2 references an
  item whose row is gone, loan 3 is still with the staff member.
\<close>

definition returning_db :: db where
  "returning_db =
     \<lparr>items = [\<lparr>i_id = 1, i_name = ''Oscilloscope'', i_quantity_available = 1\<rparr>],
      staff = [\<lparr>u_id = 7, u_full_name = ''Asha Rao''\<rparr>],
      requests = [],
      assignments = [loan 1 1 ''return_requested'', loan 2 9 ''return_requested'',
                     loan 3 1 ''assigned'']\<rparr>"

definition scenario_manual_form :: manual_form where
  "scenario_manual_form = \<lparr>mf_valid = True, mf_item_id = 1, mf_staff_id = 7\<rparr>"

definition scenario_return_form :: "nat \<Rightarrow> return_form" where
  "scenario_return_form n = \<lparr>cf_valid = True, cf_assignment_id = n\<rparr>"

section \<open>Properties\<close>

lemmas view_defs =
  submit_request_def submit_request_view_def request_return_def request_return_view_def
  approve_request_def approve_request_view_def reject_request_def reject_request_view_def
  manual_assignment_def manual_assignment_view_def complete_return_def complete_return_view_def
  login_required_def admin_only_def staff_only_def

lemmas store_defs =
  get_item_def get_request_def get_assignment_def get_staff_def
  update_item_def update_request_def update_assignment_def add_request_def add_assignment_def
  new_id_def strip_def is_space_def is_space2_def is_space3_def default_request_status_def
  available_item_choices_def staff_choices_def valid_choice_def
  validate_approve_form_def validate_manual_form_def

lemmas scenario_defs =
  admin_user_def staff_member_def oscilloscope_def scenario_db_def scenario_submit_def
  scenario_approve_form_def scenario_approve_def scenario_ops_def lifecycle_ops_def
  exhaustion_ops_def scope_request_def requested_db_def loan_def processed_db_def
  returning_db_def scenario_manual_form_def scenario_return_form_def approved_db_def

subsection \<open>Lookups and updates\<close>

lemma find_map_preserve:
  "(\<And>x. P (f x) = P x) \<Longrightarrow> find P (map f xs) = map_option f (find P xs)"
  by (induction xs) auto

lemma find_SomeD: "find P xs = Some x \<Longrightarrow> P x \<and> x \<in> set xs"
  by (induction xs) (auto split: if_splits)

lemma find_conj:
  "find P xs = Some a \<Longrightarrow> Q a \<Longrightarrow> find (\<lambda>x. P x \<and> Q x) xs = Some a"
  by (induction xs) (auto split: if_splits)

lemma find_append_fresh:
  "\<forall>x \<in> set xs. \<not> P x \<Longrightarrow> find P (xs @ ys) = find P ys"
  by (induction xs) auto

lemma get_item_id: "get_item s k = Some it \<Longrightarrow> i_id it = k"
  unfolding get_item_def by (drule find_SomeD) simp

lemma get_request_id: "get_request s k = Some r \<Longrightarrow> r_id r = k"
  unfolding get_request_def by (drule find_SomeD) simp

lemma get_assignment_id: "get_assignment s k = Some a \<Longrightarrow> a_id a = k"
  unfolding get_assignment_def by (drule find_SomeD) simp

lemma get_assignment_mem: "get_assignment s k = Some a \<Longrightarrow> a \<in> set (assignments s)"
  unfolding get_assignment_def by (drule find_SomeD) simp

lemma get_item_mem: "get_item s k = Some it \<Longrightarrow> it \<in> set (items s)"
  unfolding get_item_def by (drule find_SomeD) simp

text \<open>Which keys the select fields accept.\<close>

lemma valid_item_choice_iff:
  "valid_choice j (available_item_choices s) \<longleftrightarrow>
     (\<exists>i \<in> set (items s). i_id i = j \<and> 0 < i_quantity_available i)"
  by (force simp: valid_choice_def available_item_choices_def image_iff)

lemma valid_staff_choice_iff:
  "valid_choice j (staff_choices s) \<longleftrightarrow> (\<exists>m \<in> set (staff s). u_id m = j)"
  by (force simp: valid_choice_def staff_choices_def image_iff)

lemma item_selectable:
  assumes "get_item s j = Some item" and "0 < i_quantity_available item"
  shows "valid_choice j (available_item_choices s)"
proof -
  from assms(1) have "item \<in> set (items s)" and "i_id item = j"
    by (rule get_item_mem, rule get_item_id)
  with assms(2) show ?thesis
    unfolding valid_item_choice_iff by blast
qed


text \<open>Frame lemmas: the tables an update or an insertion leaves alone.\<close>

lemma update_item_simps [simp]:
  "items (update_item k f s) = map (\<lambda>i. if i_id i = k then f i else i) (items s)"
  "staff (update_item k f s) = staff s"
  "requests (update_item k f s) = requests s"
  "assignments (update_item k f s) = assignments s"
  by (simp_all add: update_item_def)

lemma update_request_simps [simp]:
  "items (update_request k f s) = items s"
  "staff (update_request k f s) = staff s"
  "requests (update_request k f s) = map (\<lambda>r. if r_id r = k then f r else r) (requests s)"
  "assignments (update_request k f s) = assignments s"
  by (simp_all add: update_request_def)

lemma update_assignment_simps [simp]:
  "items (update_assignment k f s) = items s"
  "staff (update_assignment k f s) = staff s"
  "requests (update_assignment k f s) = requests s"
  "assignments (update_assignment k f s) = map (\<lambda>a. if a_id a = k then f a else a) (assignments s)"
  by (simp_all add: update_assignment_def)

lemma add_assignment_simps [simp]:
  "items (add_assignment a s) = items s"
  "staff (add_assignment a s) = staff s"
  "requests (add_assignment a s) = requests s"
  "assignments (add_assignment a s) = assignments s @ [a\<lparr>a_id := new_id (map a_id (assignments s))\<rparr>]"
  by (simp_all add: add_assignment_def)

lemma add_request_simps [simp]:
  "items (add_request r s) = items s"
  "staff (add_request r s) = staff s"
  "requests (add_request r s) = requests s @ [r\<lparr>r_id := new_id (map r_id (requests s))\<rparr>]"
  "assignments (add_request r s) = assignments s"
  by (simp_all add: add_request_def)

lemma get_item_update_item:
  "get_item (update_item j (\<lambda>i. i\<lparr>i_quantity_available := q\<rparr>) s) k =
     (if k = j then map_option (\<lambda>i. i\<lparr>i_quantity_available := q\<rparr>) (get_item s k) else get_item s k)"
proof -
  let ?f = "\<lambda>i. if i_id i = j then i\<lparr>i_quantity_available := q\<rparr> else i"
  have "find (\<lambda>i. i_id i = k) (map ?f (items s)) = map_option ?f (find (\<lambda>i. i_id i = k) (items s))"
    by (rule find_map_preserve) simp
  then show ?thesis
    by (cases "get_item s k") (auto simp: get_item_def dest: find_SomeD)
qed

lemma get_request_update_request:
  "get_request (update_request n (\<lambda>r. r\<lparr>r_status := st\<rparr>) s) k =
     (if k = n then map_option (\<lambda>r. r\<lparr>r_status := st\<rparr>) (get_request s k) else get_request s k)"
proof -
  let ?f = "\<lambda>r. if r_id r = n then r\<lparr>r_status := st\<rparr> else r"
  have "find (\<lambda>r. r_id r = k) (map ?f (requests s)) = map_option ?f (find (\<lambda>r. r_id r = k) (requests s))"
    by (rule find_map_preserve) simp
  then show ?thesis
    by (cases "get_request s k") (auto simp: get_request_def dest: find_SomeD)
qed

lemma get_assignment_update_assignment:
  assumes "\<And>a. a_id (g a) = a_id a"
  shows "get_assignment (update_assignment n g s) k =
     (if k = n then map_option g (get_assignment s k) else get_assignment s k)"
proof -
  let ?f = "\<lambda>a. if a_id a = n then g a else a"
  have "find (\<lambda>a. a_id a = k) (map ?f (assignments s)) = map_option ?f (find (\<lambda>a. a_id a = k) (assignments s))"
    by (rule find_map_preserve) (simp add: assms)
  then show ?thesis
    by (cases "get_assignment s k") (auto simp: get_assignment_def dest: find_SomeD)
qed

lemma get_item_frame [simp]:
  "get_item (update_request n f s) k = get_item s k"
  "get_item (update_assignment n g s) k = get_item s k"
  "get_item (add_assignment a s) k = get_item s k"
  "get_item (add_request r s) k = get_item s k"
  by (simp_all add: get_item_def)

lemma get_request_frame [simp]:
  "get_request (update_item j h s) k = get_request s k"
  "get_request (update_assignment n g s) k = get_request s k"
  "get_request (add_assignment a s) k = get_request s k"
  by (simp_all add: get_request_def)

lemma get_assignment_frame [simp]:
  "get_assignment (update_item j h s) k = get_assignment s k"
  "get_assignment (update_request n f s) k = get_assignment s k"
  "get_assignment (add_request r s) k = get_assignment s k"
  by (simp_all add: get_assignment_def)

text \<open>Fresh keys, and counting rows under an update of one row.\<close>

lemma max_id_ge: "k \<in> set ks \<Longrightarrow> k \<le> max_id ks"
  by (induction ks) auto

lemma new_id_fresh: "new_id ks \<notin> set ks"
  using max_id_ge [of "new_id ks" ks] by (auto simp: new_id_def)

lemma new_id_fresh_image [simp]: "new_id (map key xs) \<notin> key ` set xs"
  using new_id_fresh [of "map key xs"] by simp

lemma update_other_ids:
  "\<forall>r \<in> set xs. key r \<noteq> n \<Longrightarrow> map (\<lambda>r. if key r = n then g r else r) xs = xs"
  by (induction xs) auto

lemma map_key_update:
  "(\<And>r. key (g r) = key r) \<Longrightarrow> map key (map (\<lambda>r. if key r = n then g r else r) xs) = map key xs"
  by (induction xs) auto

lemma count_update_distinct:
  assumes "distinct (map key xs)" and "a \<in> set xs"
  shows "length (filter P (map (\<lambda>r. if key r = key a then g r else r) xs)) + (if P a then 1 else 0)
       = length (filter P xs) + (if P (g a) then 1 else 0)"
  using assms
proof (induction xs)
  case Nil
  then show ?case by simp
next
  case (Cons x xs)
  show ?case
  proof (cases "a = x")
    case True
    from Cons.prems have "\<forall>r \<in> set xs. key r \<noteq> key x" by (force simp: image_iff)
    then have "map (\<lambda>r. if key r = key x then g r else r) xs = xs"
      by (rule update_other_ids)
    with True show ?thesis by simp
  next
    case False
    with Cons.prems have mem: "a \<in> set xs" and neq: "key x \<noteq> key a" and d: "distinct (map key xs)"
      by (force simp: image_iff)+
    from Cons.IH [OF d mem] neq show ?thesis by simp
  qed
qed

lemma active_count_frame [simp]:
  "active_count (update_request n f s) k = active_count s k"
  "active_count (update_item j h s) k = active_count s k"
  "active_count (add_request r s) k = active_count s k"
  by (simp_all add: active_count_def)

lemma active_count_add_assignment:
  "active_count (add_assignment a s) k =
     active_count s k + (if a_item_id a = k \<and> active a then 1 else 0)"
  by (simp add: active_count_def active_def)

lemma active_count_update_assignment:
  assumes "distinct (map a_id (assignments s))" and "a \<in> set (assignments s)"
  shows "active_count (update_assignment (a_id a) g s) k + (if a_item_id a = k \<and> active a then 1 else 0)
       = active_count s k + (if a_item_id (g a) = k \<and> active (g a) then 1 else 0)"
  using count_update_distinct [OF assms, of "\<lambda>a. a_item_id a = k \<and> active a" g]
  by (simp add: active_count_def)

lemma distinct_update_assignment:
  "(\<And>a. a_id (g a) = a_id a) \<Longrightarrow>
   distinct (map a_id (assignments (update_assignment n g s))) = distinct (map a_id (assignments s))"
proof -
  assume "\<And>a. a_id (g a) = a_id a"
  then have "map a_id (map (\<lambda>r. if a_id r = n then g r else r) (assignments s)) = map a_id (assignments s)"
    by (rule map_key_update)
  then show ?thesis
    by (simp only: update_assignment_simps)
qed

subsection \<open>The views on their committing paths\<close>

lemma approve_request_commit:
  assumes "is_authenticated u" and "user_role u = ''admin''"
    and "af_valid form" and "af_request_id form = request_id"
    and "get_request s request_id = Some r" and "r_status r = ''pending''"
    and "get_item s (af_item_id form) = Some item" and "0 < i_quantity_available item"
  shows "approve_request u now request_id form s =
      (Redirect ''admin.requests_queue'' ''Request approved and item assigned.'' ''success'',
       add_assignment
         \<lparr>a_id = 0, a_item_id = i_id item, a_staff_id = r_staff_id r,
          a_allocation_date = now, a_return_date = None, a_status = ''assigned''\<rparr>
         (update_request (r_id r) (\<lambda>r. r\<lparr>r_status := ''approved''\<rparr>)
           (update_item (i_id item)
              (\<lambda>i. i\<lparr>i_quantity_available := i_quantity_available item - 1\<rparr>) s)))"
proof -
  have "validate_approve_form form (available_item_choices s)"
    using assms(3) item_selectable [OF assms(7,8)] by (simp add: validate_approve_form_def)
  with assms show ?thesis
    by (simp add: approve_request_def approve_request_view_def login_required_def admin_only_def)
qed

lemma request_return_commit:
  assumes "is_authenticated u" and "user_role u = ''staff''"
    and "get_assignment s n = Some a" and "a_staff_id a = user_id u"
    and "a_status a = ''assigned''"
  shows "request_return u n s =
      (Redirect ''staff.dashboard'' ''Return request sent.'' ''info'',
       update_assignment n (\<lambda>a. a\<lparr>a_status := ''return_requested''\<rparr>) s)"
proof -
  from assms(3) have "find (\<lambda>a. a_id a = n) (assignments s) = Some a"
    by (simp add: get_assignment_def)
  then have "find (\<lambda>a. a_id a = n \<and> a_staff_id a = user_id u) (assignments s) = Some a"
    using assms(4) by (rule find_conj)
  moreover from assms(3) have "a_id a = n" by (rule get_assignment_id)
  ultimately show ?thesis
    using assms(1,2,5)
    by (simp add: request_return_def request_return_view_def login_required_def staff_only_def)
qed

lemma request_return_again:
  assumes "is_authenticated u" and "user_role u = ''staff''"
    and "get_assignment s n = Some a" and "a_staff_id a = user_id u"
    and "a_status a = ''return_requested''"
  shows "request_return u n s =
      (Redirect ''staff.dashboard'' ''Return already requested. Hang tight!'' ''info'', s)"
proof -
  from assms(3) have "find (\<lambda>a. a_id a = n) (assignments s) = Some a"
    by (simp add: get_assignment_def)
  then have "find (\<lambda>a. a_id a = n \<and> a_staff_id a = user_id u) (assignments s) = Some a"
    using assms(4) by (rule find_conj)
  then show ?thesis
    using assms(1,2,5)
    by (simp add: request_return_def request_return_view_def login_required_def staff_only_def)
qed

lemma complete_return_commit:
  assumes "is_authenticated u" and "user_role u = ''admin''"
    and "cf_valid form" and "cf_assignment_id form = n"
    and "get_assignment s n = Some a" and "a_status a = ''return_requested''"
  shows "complete_return u now n form s =
      (Redirect ''admin.requests_queue'' ''Return completed and inventory updated.'' ''success'',
       (case get_item s (a_item_id a) of
          Some item \<Rightarrow>
            update_item (i_id item)
              (\<lambda>i. i\<lparr>i_quantity_available := i_quantity_available item + 1\<rparr>)
        | None \<Rightarrow> id)
         (update_assignment n (\<lambda>a. a\<lparr>a_status := ''returned'', a_return_date := Some now\<rparr>) s))"
proof -
  from assms(5) have "a_id a = n" by (rule get_assignment_id)
  with assms show ?thesis
    by (simp add: complete_return_def complete_return_view_def login_required_def admin_only_def)
qed

subsection \<open>Quantities never go negative\<close>

lemma perform_quantities_nonneg:
  assumes "\<forall>i \<in> set (items s). 0 \<le> i_quantity_available i"
  shows "\<forall>i \<in> set (items (snd (perform oper s))). 0 \<le> i_quantity_available i"
proof (cases oper)
  case (SubmitRequest u form)
  with assms show ?thesis
    by (simp add: view_defs)
next
  case (ApproveRequest u now request_id form)
  with assms show ?thesis
    by (auto simp: view_defs split: option.splits)
next
  case (RejectRequest u request_id form)
  with assms show ?thesis
    by (auto simp: view_defs split: option.splits)
next
  case (ManualAssign u now form)
  with assms show ?thesis
    by (auto simp: view_defs split: option.splits)
next
  case (RequestReturn u assignment_id)
  with assms show ?thesis
    by (auto simp: view_defs split: option.splits)
next
  case (CompleteReturn u now assignment_id form)
  with assms show ?thesis
    by (auto simp: view_defs split: option.splits dest!: get_item_mem)
qed

text \<open>
  Claim C1. From a store in which every inventory item has a non-negative
  \<^verbatim>\<open>quantity_available\<close>, every sequence of the six operations (whatever the session
  users, forms and keys they are called with) leads to a store in which every inventory
  item still has a non-negative \<^verbatim>\<open>quantity_available\<close>.
\<close>

theorem quantity_never_negative:
  assumes "\<forall>i \<in> set (items s). 0 \<le> i_quantity_available i"
  shows "\<forall>i \<in> set (items (run opers s)). 0 \<le> i_quantity_available i"
  using assms
proof (induction opers arbitrary: s)
  case Nil
  then show ?case by simp
next
  case (Cons oper opers)
  from Cons.prems have "\<forall>i \<in> set (items (snd (perform oper s))). 0 \<le> i_quantity_available i"
    by (rule perform_quantities_nonneg)
  then have "\<forall>i \<in> set (items (run opers (snd (perform oper s)))). 0 \<le> i_quantity_available i"
    by (rule Cons.IH)
  then show ?case by simp
qed

theorem quantity_never_negative_witness:
  "list_all (\<lambda>i. 0 \<le> i_quantity_available i) (items scenario_db)
   \<and> list_all (\<lambda>i. 0 \<le> i_quantity_available i) (items (run scenario_ops scenario_db))
   \<and> map i_quantity_available (items (run scenario_ops scenario_db)) = [0]"
proof -
  have start: "\<forall>i \<in> set (items scenario_db). 0 \<le> i_quantity_available i"
    by (simp add: scenario_defs)
  have final: "map i_quantity_available (items (run scenario_ops scenario_db)) = [0]"
    by (simp add: scenario_defs view_defs store_defs)
  from quantity_never_negative [OF start, of scenario_ops] start final show ?thesis
    by (simp only: list_all_iff simp_thms)
qed

subsection \<open>Conservation of units\<close>

lemma conserved_allocate:
  assumes c: "conserved q0 k s" and item: "get_item s j = Some item"
    and A: "a_item_id A = i_id item" "a_status A = ''assigned''"
  shows "conserved q0 k
           (add_assignment A
              (update_item (i_id item) (\<lambda>i. i\<lparr>i_quantity_available := i_quantity_available item - 1\<rparr>) s))"
proof -
  from c obtain it where d: "distinct (map a_id (assignments s))"
    and it: "get_item s k = Some it"
    and q: "q0 = i_quantity_available it + int (active_count s k)"
    by (auto simp: conserved_def)
  from item have j: "i_id item = j" by (rule get_item_id)
  show ?thesis
  proof (cases "k = j")
    case True
    with it item have "it = item" by simp
    with True d it q A j show ?thesis
      by (simp add: conserved_def get_item_update_item active_count_add_assignment active_def)
  next
    case False
    with d it q A j show ?thesis
      by (simp add: conserved_def get_item_update_item active_count_add_assignment active_def)
  qed
qed

lemma conserved_add_assignment_update_request:
  "conserved q0 k (add_assignment A (update_request n f s)) = conserved q0 k (add_assignment A s)"
  by (simp add: conserved_def active_count_add_assignment)

lemma conserved_update_request: "conserved q0 k (update_request n f s) = conserved q0 k s"
  by (simp add: conserved_def)

lemma conserved_add_request: "conserved q0 k (add_request r s) = conserved q0 k s"
  by (simp add: conserved_def)

lemma conserved_request_return:
  assumes c: "conserved q0 k s" and a: "a \<in> set (assignments s)" and st: "a_status a = ''assigned''"
  shows "conserved q0 k (update_assignment (a_id a) (\<lambda>a. a\<lparr>a_status := ''return_requested''\<rparr>) s)"
proof -
  let ?g = "\<lambda>a. a\<lparr>a_status := ''return_requested''\<rparr>"
  from c obtain it where d: "distinct (map a_id (assignments s))"
    and it: "get_item s k = Some it"
    and q: "q0 = i_quantity_available it + int (active_count s k)"
    by (auto simp: conserved_def)
  have d': "distinct (map a_id (assignments (update_assignment (a_id a) ?g s)))"
    using d by (subst distinct_update_assignment) simp_all
  from active_count_update_assignment [OF d a, of ?g k] st
  have "active_count (update_assignment (a_id a) ?g s) k = active_count s k"
    by (simp add: active_def)
  with d' it q show ?thesis
    unfolding conserved_def by (simp del: update_assignment_simps(4))
qed

lemma conserved_complete_return:
  assumes c: "conserved q0 k s" and a: "a \<in> set (assignments s)"
    and st: "a_status a = ''return_requested''"
  shows "conserved q0 k
           ((case get_item s (a_item_id a) of
               Some item \<Rightarrow>
                 update_item (i_id item)
                   (\<lambda>i. i\<lparr>i_quantity_available := i_quantity_available item + 1\<rparr>)
             | None \<Rightarrow> id)
              (update_assignment (a_id a) (\<lambda>a. a\<lparr>a_status := ''returned'', a_return_date := Some now\<rparr>) s))"
proof -
  let ?g = "\<lambda>a. a\<lparr>a_status := ''returned'', a_return_date := Some now\<rparr>"
  let ?s1 = "update_assignment (a_id a) ?g s"
  from c obtain it where d: "distinct (map a_id (assignments s))"
    and it: "get_item s k = Some it"
    and q: "q0 = i_quantity_available it + int (active_count s k)"
    by (auto simp: conserved_def)
  have d': "distinct (map a_id (assignments ?s1))"
    using d by (subst distinct_update_assignment) simp_all
  from active_count_update_assignment [OF d a, of ?g k] st
  have cnt: "active_count ?s1 k + (if a_item_id a = k then 1 else 0) = active_count s k"
    by (simp add: active_def)
  show ?thesis
  proof (cases "a_item_id a = k")
    case True
    with it have "get_item s (a_item_id a) = Some it" by simp
    moreover have "i_id it = k" using it by (rule get_item_id)
    ultimately show ?thesis
      using d' it q cnt True unfolding conserved_def
      by (simp add: get_item_update_item del: update_assignment_simps(4))
  next
    case False
    then have "active_count ?s1 k = active_count s k" using cnt by simp
    with d' it q False show ?thesis
      unfolding conserved_def
      by (auto simp: get_item_update_item simp del: update_assignment_simps(4)
          split: option.splits dest: get_item_id)
  qed
qed

lemma conserved_complete_return_item:
  assumes "conserved q0 k s" and "a \<in> set (assignments s)"
    and "a_status a = ''return_requested''" and "get_item s (a_item_id a) = Some item"
  shows "conserved q0 k
           (update_item (i_id item)
              (\<lambda>i. i\<lparr>i_quantity_available := i_quantity_available item + 1\<rparr>)
              (update_assignment (a_id a) (\<lambda>a. a\<lparr>a_status := ''returned'', a_return_date := Some now\<rparr>) s))"
  using conserved_complete_return [OF assms(1-3), of now] assms(4) by simp

lemma conserved_complete_return_no_item:
  assumes "conserved q0 k s" and "a \<in> set (assignments s)"
    and "a_status a = ''return_requested''" and "get_item s (a_item_id a) = None"
  shows "conserved q0 k
           (update_assignment (a_id a) (\<lambda>a. a\<lparr>a_status := ''returned'', a_return_date := Some now\<rparr>) s)"
  using conserved_complete_return [OF assms(1-3), of now] assms(4) by simp

lemma perform_conserved:
  assumes "conserved q0 k s"
  shows "conserved q0 k (snd (perform oper s))"
proof (cases oper)
  case (SubmitRequest u form)
  with assms show ?thesis
    by (simp add: view_defs conserved_add_request)
next
  case (ApproveRequest u now request_id form)
  with assms show ?thesis
    by (auto simp: view_defs conserved_allocate conserved_add_assignment_update_request
        split: option.splits)
next
  case (RejectRequest u request_id form)
  with assms show ?thesis
    by (auto simp: view_defs conserved_update_request split: option.splits)
next
  case (ManualAssign u now form)
  with assms show ?thesis
    by (auto simp: view_defs conserved_allocate split: option.splits)
next
  case (RequestReturn u assignment_id)
  with assms show ?thesis
    by (auto simp: view_defs conserved_request_return split: option.splits dest: find_SomeD)
next
  case (CompleteReturn u now assignment_id form)
  with assms show ?thesis
    by (auto simp: view_defs conserved_complete_return_item conserved_complete_return_no_item
        split: option.splits dest: get_assignment_mem)
qed

lemma run_conserved: "conserved q0 k s \<Longrightarrow> conserved q0 k (run opers s)"
  by (induction opers arbitrary: s) (simp_all add: perform_conserved)

text \<open>
  Claim C2. Start from a store with no assignments and run any sequence of the six
  operations. For every inventory item of the initial store (looked up by its primary
  key \<open>k\<close>), the item is still there, and its initial \<^verbatim>\<open>quantity_available\<close> equals
  its current \<^verbatim>\<open>quantity_available\<close> plus the number of assignments that reference
  the item and whose status is \<^verbatim>\<open>assigned\<close> or \<^verbatim>\<open>return_requested\<close>.
\<close>

theorem quantity_conservation:
  assumes "assignments s0 = []" and "get_item s0 k = Some it0"
  shows "\<exists>it. get_item (run opers s0) k = Some it \<and>
              i_quantity_available it0 =
                i_quantity_available it + int (active_count (run opers s0) k)"
proof -
  from assms have "conserved (i_quantity_available it0) k s0"
    by (simp add: conserved_def active_count_def)
  then have "conserved (i_quantity_available it0) k (run opers s0)"
    by (rule run_conserved)
  then show ?thesis
    by (simp add: conserved_def)
qed

theorem quantity_conservation_witness:
  "assignments scenario_db = [] \<and> get_item scenario_db 1 = Some oscilloscope
   \<and> (\<exists>it. get_item (run lifecycle_ops scenario_db) 1 = Some it \<and>
            i_quantity_available oscilloscope =
              i_quantity_available it + int (active_count (run lifecycle_ops scenario_db) 1))
   \<and> map i_quantity_available (items (run lifecycle_ops scenario_db)) = [1]
   \<and> map a_status (assignments (run lifecycle_ops scenario_db)) = [''returned'', ''assigned'']
   \<and> active_count (run lifecycle_ops scenario_db) 1 = 1"
proof -
  have h1: "assignments scenario_db = []"
    by (simp add: scenario_defs)
  have h2: "get_item scenario_db 1 = Some oscilloscope"
    by (simp add: scenario_defs store_defs)
  have e1: "map i_quantity_available (items (run lifecycle_ops scenario_db)) = [1]"
    by (simp add: scenario_defs view_defs store_defs)
  have e2: "map a_status (assignments (run lifecycle_ops scenario_db)) = [''returned'', ''assigned'']"
    by (simp add: scenario_defs view_defs store_defs)
  have e3: "active_count (run lifecycle_ops scenario_db) 1 = 1"
    by (simp add: scenario_defs view_defs store_defs active_count_def active_def)
  from quantity_conservation [OF h1 h2, of lifecycle_ops] h1 h2 e1 e2 e3 show ?thesis
    by blast
qed

subsection \<open>The example stores are reached by the views\<close>

lemma requested_db_run:
  "run [scenario_submit, scenario_submit, scenario_submit] scenario_db = requested_db"
  by (simp add: scenario_defs view_defs store_defs)

lemma processed_db_run: "run scenario_ops scenario_db = processed_db"
  by (simp add: scenario_defs view_defs store_defs)

subsection \<open>Approval\<close>

text \<open>
  Claim C3. Let an admin submit an approval form for a request whose status is
  \<^verbatim>\<open>pending\<close> and for an item whose \<^verbatim>\<open>quantity_available\<close> is positive, and let
  the form's validators pass (the item, being in stock, is one of its choices). Then
  \<^verbatim>\<open>approve_request\<close> answers with the success message, the item's
  \<^verbatim>\<open>quantity_available\<close> has gone down by exactly one (every other item is as it
  was), the assignment table has exactly one more row, which references the given item
  and the request's staff member and has status \<^verbatim>\<open>assigned\<close>, and the request's
  status is \<^verbatim>\<open>approved\<close> (every other request is as it was).
\<close>

theorem approve_request_effect:
  assumes "is_authenticated u" and "user_role u = ''admin''"
    and "af_valid form" and "af_request_id form = request_id"
    and "get_request s request_id = Some r" and "r_status r = ''pending''"
    and "get_item s (af_item_id form) = Some item" and "0 < i_quantity_available item"
  shows "fst (approve_request u now request_id form s) =
           Redirect ''admin.requests_queue'' ''Request approved and item assigned.'' ''success''
       \<and> get_item (snd (approve_request u now request_id form s)) (af_item_id form) =
           Some (item\<lparr>i_quantity_available := i_quantity_available item - 1\<rparr>)
       \<and> (\<forall>k. k \<noteq> af_item_id form \<longrightarrow>
             get_item (snd (approve_request u now request_id form s)) k = get_item s k)
       \<and> assignments (snd (approve_request u now request_id form s)) =
           assignments s @
             [\<lparr>a_id = new_id (map a_id (assignments s)), a_item_id = af_item_id form,
               a_staff_id = r_staff_id r, a_allocation_date = now, a_return_date = None,
               a_status = ''assigned''\<rparr>]
       \<and> get_request (snd (approve_request u now request_id form s)) request_id =
           Some (r\<lparr>r_status := ''approved''\<rparr>)
       \<and> (\<forall>k. k \<noteq> request_id \<longrightarrow>
             get_request (snd (approve_request u now request_id form s)) k = get_request s k)"
proof -
  from assms(7) have i: "i_id item = af_item_id form" by (rule get_item_id)
  from assms(5) have r: "r_id r = request_id" by (rule get_request_id)
  show ?thesis
    unfolding approve_request_commit [OF assms] using i r assms(5,7)
    by (simp add: get_item_update_item get_request_update_request)
qed

theorem approve_request_effect_witness:
  "is_authenticated admin_user \<and> user_role admin_user = ''admin''
   \<and> af_valid (scenario_approve_form 1) \<and> af_request_id (scenario_approve_form 1) = 1
   \<and> get_request requested_db 1 = Some (scope_request 1 ''pending'')
   \<and> get_item requested_db (af_item_id (scenario_approve_form 1)) = Some oscilloscope
   \<and> 0 < i_quantity_available oscilloscope
   \<and> fst (approve_request admin_user 100 1 (scenario_approve_form 1) requested_db) =
        Redirect ''admin.requests_queue'' ''Request approved and item assigned.'' ''success''
   \<and> get_item (snd (approve_request admin_user 100 1 (scenario_approve_form 1) requested_db)) 1 =
        Some \<lparr>i_id = 1, i_name = ''Oscilloscope'', i_quantity_available = 1\<rparr>
   \<and> assignments (snd (approve_request admin_user 100 1 (scenario_approve_form 1) requested_db)) =
        [loan 1 1 ''assigned'']
   \<and> get_request (snd (approve_request admin_user 100 1 (scenario_approve_form 1) requested_db)) 1 =
        Some (scope_request 1 ''approved'')"
proof -
  have h1: "is_authenticated admin_user" and h2: "user_role admin_user = ''admin''"
    and h3: "af_valid (scenario_approve_form 1)"
    and h4: "af_request_id (scenario_approve_form 1) = 1"
    by (simp_all add: scenario_defs)
  have h5: "get_request requested_db 1 = Some (scope_request 1 ''pending'')"
    and h6: "r_status (scope_request 1 ''pending'') = ''pending''"
    and h7: "get_item requested_db (af_item_id (scenario_approve_form 1)) = Some oscilloscope"
    and h8: "0 < i_quantity_available oscilloscope"
    by (simp_all add: scenario_defs store_defs)
  from approve_request_effect [OF h1 h2 h3 h4 h5 h6 h7 h8, of 100] h1 h2 h3 h4 h5 h7 h8
  show ?thesis
    by (simp add: scenario_defs new_id_def)
qed






subsection \<open>Returns\<close>

text \<open>
  Claim C7. Let an admin submit a valid return form for an assignment whose status is
  \<^verbatim>\<open>return_requested\<close>. Then \<^verbatim>\<open>complete_return\<close> answers with the success
  message, the assignment has status \<^verbatim>\<open>returned\<close> and its \<^verbatim>\<open>return_date\<close> is the
  current time, and the \<^verbatim>\<open>quantity_available\<close> of the item it references has gone
  up by exactly one (every other item is as it was). When no item row with that key
  exists, the item table is left as it was and the view succeeds all the same.
\<close>

theorem complete_return_effect:
  assumes "is_authenticated u" and "user_role u = ''admin''"
    and "cf_valid form" and "cf_assignment_id form = n"
    and "get_assignment s n = Some a" and "a_status a = ''return_requested''"
  shows "fst (complete_return u now n form s) =
           Redirect ''admin.requests_queue'' ''Return completed and inventory updated.'' ''success''
       \<and> get_assignment (snd (complete_return u now n form s)) n =
           Some (a\<lparr>a_status := ''returned'', a_return_date := Some now\<rparr>)
       \<and> (case get_item s (a_item_id a) of
             Some item \<Rightarrow>
               get_item (snd (complete_return u now n form s)) (a_item_id a) =
                 Some (item\<lparr>i_quantity_available := i_quantity_available item + 1\<rparr>)
           | None \<Rightarrow> items (snd (complete_return u now n form s)) = items s)
       \<and> (\<forall>k. k \<noteq> a_item_id a \<longrightarrow>
             get_item (snd (complete_return u now n form s)) k = get_item s k)"
proof (cases "get_item s (a_item_id a)")
  case None
  then show ?thesis
    unfolding complete_return_commit [OF assms] using assms(5)
    by (simp add: get_assignment_update_assignment)
next
  case (Some item)
  then have "i_id item = a_item_id a" by (rule get_item_id)
  with Some show ?thesis
    unfolding complete_return_commit [OF assms] using assms(5)
    by (simp add: get_assignment_update_assignment get_item_update_item)
qed

theorem complete_return_effect_witness:
  "get_assignment returning_db 1 = Some (loan 1 1 ''return_requested'')
   \<and> get_assignment returning_db 2 = Some (loan 2 9 ''return_requested'')
   \<and> get_item returning_db 9 = None
   \<and> fst (complete_return admin_user 300 1 (scenario_return_form 1) returning_db) =
        Redirect ''admin.requests_queue'' ''Return completed and inventory updated.'' ''success''
   \<and> get_assignment (snd (complete_return admin_user 300 1 (scenario_return_form 1) returning_db)) 1 =
        Some ((loan 1 1 ''returned'')\<lparr>a_return_date := Some 300\<rparr>)
   \<and> get_item (snd (complete_return admin_user 300 1 (scenario_return_form 1) returning_db)) 1 =
        Some \<lparr>i_id = 1, i_name = ''Oscilloscope'', i_quantity_available = 2\<rparr>
   \<and> fst (complete_return admin_user 300 2 (scenario_return_form 2) returning_db) =
        Redirect ''admin.requests_queue'' ''Return completed and inventory updated.'' ''success''
   \<and> get_assignment (snd (complete_return admin_user 300 2 (scenario_return_form 2) returning_db)) 2 =
        Some ((loan 2 9 ''returned'')\<lparr>a_return_date := Some 300\<rparr>)
   \<and> items (snd (complete_return admin_user 300 2 (scenario_return_form 2) returning_db)) =
        items returning_db"
proof -
  have h: "is_authenticated admin_user" "user_role admin_user = ''admin''"
    by (simp_all add: scenario_defs)
  have f1: "cf_valid (scenario_return_form 1)" "cf_assignment_id (scenario_return_form 1) = 1"
    and f2: "cf_valid (scenario_return_form 2)" "cf_assignment_id (scenario_return_form 2) = 2"
    by (simp_all add: scenario_defs)
  have a1: "get_assignment returning_db 1 = Some (loan 1 1 ''return_requested'')"
    and a2: "get_assignment returning_db 2 = Some (loan 2 9 ''return_requested'')"
    and st: "a_status (loan 1 1 ''return_requested'') = ''return_requested''"
            "a_status (loan 2 9 ''return_requested'') = ''return_requested''"
    and i1: "get_item returning_db (a_item_id (loan 1 1 ''return_requested'')) =
               Some \<lparr>i_id = 1, i_name = ''Oscilloscope'', i_quantity_available = 1\<rparr>"
    and i2: "get_item returning_db (a_item_id (loan 2 9 ''return_requested'')) = None"
    and i3: "get_item returning_db 9 = None"
    by (simp_all add: scenario_defs store_defs)
  from complete_return_effect [OF h f1 a1 st(1), of 300]
       complete_return_effect [OF h f2 a2 st(2), of 300]
       a1 a2 i1 i2 i3
  show ?thesis
    by (simp add: loan_def)
qed

text \<open>
  Claim C8. Let a staff member call \<^verbatim>\<open>request_return\<close> on an assignment of their
  own. When its status is \<^verbatim>\<open>assigned\<close>, the call sets it to
  \<^verbatim>\<open>return_requested\<close>, and a second call is answered with the informational
  message ``Return already requested. Hang tight!'' and returns the store as the first
  call left it. When its status already is \<^verbatim>\<open>return_requested\<close>, the call is
  answered with that message (category \<^verbatim>\<open>info\<close>, not an error) and returns the
  store as it was.
\<close>

theorem request_return_idempotent:
  assumes "is_authenticated u" and "user_role u = ''staff''"
    and "get_assignment s n = Some a" and "a_staff_id a = user_id u"
  shows "(a_status a = ''assigned'' \<longrightarrow>
            fst (request_return u n s) =
              Redirect ''staff.dashboard'' ''Return request sent.'' ''info''
          \<and> get_assignment (snd (request_return u n s)) n =
              Some (a\<lparr>a_status := ''return_requested''\<rparr>)
          \<and> request_return u n (snd (request_return u n s)) =
              (Redirect ''staff.dashboard'' ''Return already requested. Hang tight!'' ''info'',
               snd (request_return u n s)))
       \<and> (a_status a = ''return_requested'' \<longrightarrow>
            request_return u n s =
              (Redirect ''staff.dashboard'' ''Return already requested. Hang tight!'' ''info'', s))"
proof (intro conjI impI)
  assume st: "a_status a = ''assigned''"
  let ?s1 = "update_assignment n (\<lambda>a. a\<lparr>a_status := ''return_requested''\<rparr>) s"
  have eq: "request_return u n s =
      (Redirect ''staff.dashboard'' ''Return request sent.'' ''info'', ?s1)"
    using assms st by (rule request_return_commit)
  have look: "get_assignment ?s1 n = Some (a\<lparr>a_status := ''return_requested''\<rparr>)"
    using assms(3) by (simp add: get_assignment_update_assignment)
  show "fst (request_return u n s) = Redirect ''staff.dashboard'' ''Return request sent.'' ''info''"
    by (simp add: eq)
  show "get_assignment (snd (request_return u n s)) n = Some (a\<lparr>a_status := ''return_requested''\<rparr>)"
    by (simp add: eq look)
  have "request_return u n ?s1 =
      (Redirect ''staff.dashboard'' ''Return already requested. Hang tight!'' ''info'', ?s1)"
    using assms(1,2) look by (rule request_return_again) (simp_all add: assms(4))
  then show "request_return u n (snd (request_return u n s)) =
      (Redirect ''staff.dashboard'' ''Return already requested. Hang tight!'' ''info'',
       snd (request_return u n s))"
    by (simp add: eq)
next
  assume "a_status a = ''return_requested''"
  with assms show "request_return u n s =
      (Redirect ''staff.dashboard'' ''Return already requested. Hang tight!'' ''info'', s)"
    by (rule request_return_again)
qed

theorem request_return_idempotent_witness:
  "get_assignment returning_db 3 = Some (loan 3 1 ''assigned'')
   \<and> a_staff_id (loan 3 1 ''assigned'') = user_id staff_member
   \<and> fst (request_return staff_member 3 returning_db) =
        Redirect ''staff.dashboard'' ''Return request sent.'' ''info''
   \<and> get_assignment (snd (request_return staff_member 3 returning_db)) 3 =
        Some (loan 3 1 ''return_requested'')
   \<and> request_return staff_member 3 (snd (request_return staff_member 3 returning_db)) =
        (Redirect ''staff.dashboard'' ''Return already requested. Hang tight!'' ''info'',
         snd (request_return staff_member 3 returning_db))
   \<and> get_assignment returning_db 1 = Some (loan 1 1 ''return_requested'')
   \<and> request_return staff_member 1 returning_db =
        (Redirect ''staff.dashboard'' ''Return already requested. Hang tight!'' ''info'', returning_db)"
proof -
  have h: "is_authenticated staff_member" "user_role staff_member = ''staff''"
    by (simp_all add: scenario_defs)
  have a3: "get_assignment returning_db 3 = Some (loan 3 1 ''assigned'')"
    and o3: "a_staff_id (loan 3 1 ''assigned'') = user_id staff_member"
    and s3: "a_status (loan 3 1 ''assigned'') = ''assigned''"
    and a1: "get_assignment returning_db 1 = Some (loan 1 1 ''return_requested'')"
    and o1: "a_staff_id (loan 1 1 ''return_requested'') = user_id staff_member"
    and s1: "a_status (loan 1 1 ''return_requested'') = ''return_requested''"
    by (simp_all add: scenario_defs store_defs)
  from request_return_idempotent [OF h a3 o3] request_return_idempotent [OF h a1 o1]
       a3 o3 s3 a1 s1
  show ?thesis
    by (simp add: loan_def)
qed

lemma get_assignment_add_assignment:
  "get_assignment (add_assignment A s) (new_id (map a_id (assignments s))) =
     Some (A\<lparr>a_id := new_id (map a_id (assignments s))\<rparr>)"
proof -
  have "\<forall>x \<in> set (assignments s). \<not> a_id x = new_id (map a_id (assignments s))"
    using new_id_fresh_image [of a_id "assignments s"] by (auto simp: image_iff)
  then show ?thesis
    by (simp add: get_assignment_def find_append_fresh)
qed

text \<open>
  Claim C9. Let an admin approve a pending request against an existing item with
  positive \<^verbatim>\<open>quantity_available\<close>, let the request's staff member then request the
  return of the assignment just created, and let an admin complete that return. All three
  views succeed, and the item row is again what it was before the approval: its
  \<^verbatim>\<open>quantity_available\<close> is restored exactly.
\<close>

theorem approve_return_round_trip:
  assumes adm: "is_authenticated adm" "user_role adm = ''admin''"
    and usr: "is_authenticated usr" "user_role usr = ''staff''" "user_id usr = r_staff_id r"
    and af: "af_valid af" "af_request_id af = request_id"
    and r: "get_request s request_id = Some r" "r_status r = ''pending''"
    and item: "get_item s (af_item_id af) = Some item" "0 < i_quantity_available item"
    and n: "n = new_id (map a_id (assignments s))"
    and cf: "cf_valid cf" "cf_assignment_id cf = n"
    and s1: "s1 = snd (approve_request adm t1 request_id af s)"
    and s2: "s2 = snd (request_return usr n s1)"
    and s3: "s3 = snd (complete_return adm t2 n cf s2)"
  shows "get_assignment s1 n =
           Some \<lparr>a_id = n, a_item_id = af_item_id af, a_staff_id = r_staff_id r,
                 a_allocation_date = t1, a_return_date = None, a_status = ''assigned''\<rparr>
       \<and> get_item s1 (af_item_id af) =
           Some (item\<lparr>i_quantity_available := i_quantity_available item - 1\<rparr>)
       \<and> fst (request_return usr n s1) =
           Redirect ''staff.dashboard'' ''Return request sent.'' ''info''
       \<and> fst (complete_return adm t2 n cf s2) =
           Redirect ''admin.requests_queue'' ''Return completed and inventory updated.'' ''success''
       \<and> get_item s3 (af_item_id af) = Some item"
proof -
  let ?A = "\<lparr>a_id = n, a_item_id = af_item_id af, a_staff_id = r_staff_id r,
             a_allocation_date = t1, a_return_date = None, a_status = ''assigned''\<rparr>"
  let ?item1 = "item\<lparr>i_quantity_available := i_quantity_available item - 1\<rparr>"
  from item(1) have i: "i_id item = af_item_id af" by (rule get_item_id)
  have a1: "get_assignment s1 n = Some ?A"
    unfolding s1 approve_request_commit [OF adm af r item] n
    using get_assignment_add_assignment
      [of "\<lparr>a_id = 0, a_item_id = i_id item, a_staff_id = r_staff_id r,
            a_allocation_date = t1, a_return_date = None, a_status = ''assigned''\<rparr>"
          "update_request (r_id r) (\<lambda>r. r\<lparr>r_status := ''approved''\<rparr>)
             (update_item (i_id item)
                (\<lambda>i. i\<lparr>i_quantity_available := i_quantity_available item - 1\<rparr>) s)"]
    by (simp add: i)
  have i1: "get_item s1 (af_item_id af) = Some ?item1"
    unfolding s1 approve_request_commit [OF adm af r item] using item(1) i
    by (simp add: get_item_update_item)
  have rr: "request_return usr n s1 =
      (Redirect ''staff.dashboard'' ''Return request sent.'' ''info'',
       update_assignment n (\<lambda>a. a\<lparr>a_status := ''return_requested''\<rparr>) s1)"
    using usr(1,2) a1 by (rule request_return_commit) (simp_all add: usr(3))
  have a2: "get_assignment s2 n = Some (?A\<lparr>a_status := ''return_requested''\<rparr>)"
    unfolding s2 rr using a1 by (simp add: get_assignment_update_assignment)
  have i2: "get_item s2 (af_item_id af) = Some ?item1"
    unfolding s2 rr using i1 by simp
  have cr: "complete_return adm t2 n cf s2 =
      (Redirect ''admin.requests_queue'' ''Return completed and inventory updated.'' ''success'',
       (case get_item s2 (a_item_id (?A\<lparr>a_status := ''return_requested''\<rparr>)) of
          Some item \<Rightarrow>
            update_item (i_id item)
              (\<lambda>i. i\<lparr>i_quantity_available := i_quantity_available item + 1\<rparr>)
        | None \<Rightarrow> id)
         (update_assignment n (\<lambda>a. a\<lparr>a_status := ''returned'', a_return_date := Some t2\<rparr>) s2))"
    using adm cf a2 by (rule complete_return_commit) simp
  have i3: "get_item s3 (af_item_id af) = Some item"
    unfolding s3 cr using i2 i by (simp add: get_item_update_item)
  from a1 i1 rr cr i3 show ?thesis
    by simp
qed

theorem approve_return_round_trip_witness:
  "get_request requested_db 1 = Some (scope_request 1 ''pending'')
   \<and> get_item requested_db 1 = Some oscilloscope
   \<and> new_id (map a_id (assignments requested_db)) = 1
   \<and> get_item (snd (approve_request admin_user 100 1 (scenario_approve_form 1) requested_db)) 1 =
        Some \<lparr>i_id = 1, i_name = ''Oscilloscope'', i_quantity_available = 1\<rparr>
   \<and> get_item
        (snd (complete_return admin_user 102 1 (scenario_return_form 1)
          (snd (request_return staff_member 1
            (snd (approve_request admin_user 100 1 (scenario_approve_form 1) requested_db)))))) 1 =
        Some oscilloscope"
proof -
  have adm: "is_authenticated admin_user" "user_role admin_user = ''admin''"
    and usr: "is_authenticated staff_member" "user_role staff_member = ''staff''"
      "user_id staff_member = r_staff_id (scope_request 1 ''pending'')"
    and af: "af_valid (scenario_approve_form 1)" "af_request_id (scenario_approve_form 1) = 1"
    and cf: "cf_valid (scenario_return_form 1)" "cf_assignment_id (scenario_return_form 1) = 1"
    and st: "r_status (scope_request 1 ''pending'') = ''pending''"
    and q: "0 < i_quantity_available oscilloscope"
    and k: "af_item_id (scenario_approve_form 1) = 1"
    by (simp_all add: scenario_defs)
  have r: "get_request requested_db 1 = Some (scope_request 1 ''pending'')"
    and item: "get_item requested_db (af_item_id (scenario_approve_form 1)) = Some oscilloscope"
    and n: "1 = new_id (map a_id (assignments requested_db))"
    by (simp_all add: scenario_defs store_defs)
  from approve_return_round_trip
         [OF adm usr af r st item q n cf refl refl refl, where ?t1.0 = 100 and ?t2.0 = 102]
       r item n [symmetric] k
  show ?thesis
    by (simp add: oscilloscope_def)
qed

text \<open>
  Claim C10. Let a staff member call \<^verbatim>\<open>request_return\<close> on an assignment of their
  own whose status is \<^verbatim>\<open>assigned\<close>. The item, staff and request tables are
  unchanged, the assignment table has as many rows as before, the assignment differs
  from what it was in its status only (so its \<^verbatim>\<open>return_date\<close> is what it was), and
  every assignment with another key is unchanged.
\<close>

theorem request_return_frame:
  assumes "is_authenticated u" and "user_role u = ''staff''"
    and "get_assignment s n = Some a" and "a_staff_id a = user_id u"
    and "a_status a = ''assigned''"
  shows "items (snd (request_return u n s)) = items s
       \<and> staff (snd (request_return u n s)) = staff s
       \<and> requests (snd (request_return u n s)) = requests s
       \<and> length (assignments (snd (request_return u n s))) = length (assignments s)
       \<and> get_assignment (snd (request_return u n s)) n = Some (a\<lparr>a_status := ''return_requested''\<rparr>)
       \<and> map_option a_return_date (get_assignment (snd (request_return u n s)) n) =
           Some (a_return_date a)
       \<and> (\<forall>k. k \<noteq> n \<longrightarrow> get_assignment (snd (request_return u n s)) k = get_assignment s k)
       \<and> (\<forall>j < length (assignments s).
             a_id (assignments s ! j) \<noteq> n \<longrightarrow>
               assignments (snd (request_return u n s)) ! j = assignments s ! j)"
  unfolding request_return_commit [OF assms] using assms(3)
  by (simp add: get_assignment_update_assignment)

theorem request_return_frame_witness:
  "get_assignment returning_db 3 = Some (loan 3 1 ''assigned'')
   \<and> a_staff_id (loan 3 1 ''assigned'') = user_id staff_member
   \<and> items (snd (request_return staff_member 3 returning_db)) = items returning_db
   \<and> requests (snd (request_return staff_member 3 returning_db)) = requests returning_db
   \<and> assignments (snd (request_return staff_member 3 returning_db)) =
        [loan 1 1 ''return_requested'', loan 2 9 ''return_requested'', loan 3 1 ''return_requested'']
   \<and> map_option a_return_date (get_assignment (snd (request_return staff_member 3 returning_db)) 3) =
        Some None"
proof -
  have h: "is_authenticated staff_member" "user_role staff_member = ''staff''"
    by (simp_all add: scenario_defs)
  have a3: "get_assignment returning_db 3 = Some (loan 3 1 ''assigned'')"
    and o3: "a_staff_id (loan 3 1 ''assigned'') = user_id staff_member"
    and s3: "a_status (loan 3 1 ''assigned'') = ''assigned''"
    by (simp_all add: scenario_defs store_defs)
  have e: "assignments (snd (request_return staff_member 3 returning_db)) =
        [loan 1 1 ''return_requested'', loan 2 9 ''return_requested'', loan 3 1 ''return_requested'']"
    by (simp add: scenario_defs view_defs store_defs)
  from request_return_frame [OF h a3 o3 s3] a3 o3 e
  show ?thesis
    by (simp add: loan_def)
qed

end
